theory Spec2Isabelle
  imports Complex_Main
begin

section \<open>Values of the program\<close>

text \<open>
  A C++ \<^verbatim>\<open>double\<close>: a finite number or one of the three IEEE special values.
  Finite values are carried as reals; only the literals \<^verbatim>\<open>0.0\<close> and \<^verbatim>\<open>1.0\<close>
  (both exactly representable) occur in the program, and no arithmetic is done on them,
  so no rounding is involved. The type is larger than the set of machine doubles, hence a
  statement for every \<open>double\<close> of the model covers every machine double.
\<close>

datatype double = Num real | PInf | MInf | NaN

text \<open>The operator \<^verbatim>\<open>>=\<close> on doubles: false as soon as one operand is NaN.\<close>

fun double_ge :: "double \<Rightarrow> double \<Rightarrow> bool" where
  "double_ge NaN y = False"
| "double_ge x NaN = False"
| "double_ge PInf y = True"
| "double_ge x MInf = True"
| "double_ge (Num x) (Num y) = (y \<le> x)"
| "double_ge (Num x) PInf = False"
| "double_ge MInf y = False"

text \<open>
  Modelled from the spec: the type \<^verbatim>\<open>Bit\<close> is declared in a header
  (\<^verbatim>\<open>planck_units.h\<close> or \<^verbatim>\<open>shannon_logic.h\<close>) that is not part of the sources. The
  spec calls it an opaque value, built from the integer \<open>1\<close> in \<^verbatim>\<open>writeBit\<close>, never
  inspected; it is a value wrapping the integer it was constructed from.
\<close>

datatype Bit = Bit int

text \<open>
  The only way out of a C++ function other than returning is an exception. No function
  of the program has a \<^verbatim>\<open>throw\<close>, an allocation, a division or an array access; the
  result type keeps the possibility visible, so that "does not fail" is a statement.
\<close>

datatype error = Exception

type_synonym 'a result = "error + 'a"

text \<open>\<^verbatim>\<open>class Sandbox\<close> declares no data member: an object has exactly one value.\<close>

datatype Sandbox = Sandbox

section \<open>Constants\<close>

definition SIGMA_P :: double where
  "SIGMA_P = Num 1.0"

definition PLANCK_LIMIT :: double where
  "PLANCK_LIMIT = Num 1.0"

section \<open>Observer\<close>

text \<open>
  \<^verbatim>\<open>static void decode(auto signal) { }\<close>: a static member with a by-value parameter
  of any type and an empty body.
\<close>

definition decode :: "'signal \<Rightarrow> unit result" where
  "decode signal = Inr ()"

section \<open>Sandbox\<close>

text \<open>
  \<^verbatim>\<open>initialize\<close> is static and returns a default-constructed object. Every other
  member function is non-\<^verbatim>\<open>const\<close>: it takes the object and returns its result
  together with the object as it leaves it.
\<close>

definition initialize :: "double \<Rightarrow> Sandbox result" where
  "initialize volume_geometry = Inr Sandbox"

definition clearToZero :: "Sandbox \<Rightarrow> (unit \<times> Sandbox) result" where
  "clearToZero this = Inr ((), this)"

definition writeBit :: "Sandbox \<Rightarrow> double \<Rightarrow> (Bit \<times> Sandbox) result" where
  "writeBit this quantum = Inr (Bit 1, this)"

definition isRunning :: "Sandbox \<Rightarrow> (bool \<times> Sandbox) result" where
  "isRunning this = Inr (True, this)"

definition getDensity :: "Sandbox \<Rightarrow> (double \<times> Sandbox) result" where
  "getDensity this = Inr (Num 0.0, this)"

definition executeBounce :: "Sandbox \<Rightarrow> (unit \<times> Sandbox) result" where
  "executeBounce this = Inr ((), this)"

definition expandEntropy :: "Sandbox \<Rightarrow> (unit \<times> Sandbox) result" where
  "expandEntropy this = Inr ((), this)"

definition getRadiation :: "Sandbox \<Rightarrow> (string \<times> Sandbox) result" where
  "getRadiation this = Inr (''Hawking-Signal'', this)"

section \<open>The driver\<close>

text \<open>
  The driver is run with a log of the calls it makes, each with the argument it passed
  or the value it got back. A computation takes the log so far and either fails with the
  error of the call that failed, or returns its value and the extended log.
\<close>

datatype event =
    Call_initialize double
  | Call_clearToZero
  | Call_writeBit double Bit
  | Call_isRunning bool
  | Call_getDensity double
  | Call_executeBounce
  | Call_expandEntropy
  | Call_getRadiation string
  | Call_decode string

type_synonym 'a traced = "event list \<Rightarrow> ('a \<times> event list) result"

definition ret :: "'a \<Rightarrow> 'a traced" where
  "ret x calls = Inr (x, calls)"

text \<open>
  \<open>call r ev k\<close>: the outcome \<open>r\<close> of a call; on an exception the driver is left with it
  (nothing in the driver catches), otherwise the call is logged and \<open>k\<close> continues with
  the returned value.
\<close>

definition call :: "'a result \<Rightarrow> ('a \<Rightarrow> event) \<Rightarrow> ('a \<Rightarrow> 'b traced) \<Rightarrow> 'b traced" where
  "call r ev k calls = (case r of Inl e \<Rightarrow> Inl e | Inr x \<Rightarrow> k x (calls @ [ev x]))"

definition seq :: "'a traced \<Rightarrow> ('a \<Rightarrow> 'b traced) \<Rightarrow> 'b traced" where
  "seq m k calls = (case m calls of Inl e \<Rightarrow> Inl e | Inr (x, calls') \<Rightarrow> k x calls')"

text \<open>The body of the \<^verbatim>\<open>while\<close> loop of \<^verbatim>\<open>boot_universe\<close>.\<close>

definition loop_body :: "Sandbox \<Rightarrow> Sandbox traced" where
  "loop_body universe =
     call (getDensity universe) (\<lambda>(density, _). Call_getDensity density) (\<lambda>(density, universe).
       (if double_ge density PLANCK_LIMIT
        then call (executeBounce universe) (\<lambda>_. Call_executeBounce)
        else call (expandEntropy universe) (\<lambda>_. Call_expandEntropy)) (\<lambda>(_, universe).
     call (getRadiation universe) (\<lambda>(signal, _). Call_getRadiation signal) (\<lambda>(signal, universe).
     call (decode signal) (\<lambda>_. Call_decode signal) (\<lambda>_.
     ret universe))))"

text \<open>
  The loop, bounded by the number of iterations it may start. \<open>Exited\<close>: the guard was
  false and the loop was left. \<open>Looping\<close>: the bound is used up and the loop has not
  been left; the next thing to happen is another evaluation of the guard.
\<close>

datatype status = Exited | Looping

fun breath_cycle :: "nat \<Rightarrow> Sandbox \<Rightarrow> status traced" where
  "breath_cycle 0 universe = ret Looping"
| "breath_cycle (Suc fuel) universe =
     call (isRunning universe) (\<lambda>(running, _). Call_isRunning running) (\<lambda>(running, universe).
       if running then seq (loop_body universe) (breath_cycle fuel)
       else ret Exited)"

text \<open>
  \<^verbatim>\<open>boot_universe\<close>. The macro or constant \<^verbatim>\<open>CONST_8PI_G_C4\<close> comes from a header
  that is not part of the sources: it is a parameter. After the loop the function
  returns, so its status is the loop's.
\<close>

definition boot_universe :: "double \<Rightarrow> nat \<Rightarrow> status traced" where
  "boot_universe CONST_8PI_G_C4 fuel =
     call (initialize CONST_8PI_G_C4) (\<lambda>_. Call_initialize CONST_8PI_G_C4) (\<lambda>universe.
     call (clearToZero universe) (\<lambda>_. Call_clearToZero) (\<lambda>(_, universe).
     call (writeBit universe SIGMA_P) (\<lambda>(bit, _). Call_writeBit SIGMA_P bit) (\<lambda>(first_action, universe).
     breath_cycle fuel universe)))"

section \<open>Sequences of operations on one object\<close>

text \<open>
  The non-static member functions as values, and what a call does to the object: the
  object as the member function leaves it, the returned value dropped. A list of calls
  is run in order and stops at the first that fails.
\<close>

datatype member_call =
    ClearToZero
  | WriteBit double
  | IsRunning
  | GetDensity
  | ExecuteBounce
  | ExpandEntropy
  | GetRadiation

fun after_call :: "member_call \<Rightarrow> Sandbox \<Rightarrow> Sandbox result" where
  "after_call ClearToZero this = map_sum id snd (clearToZero this)"
| "after_call (WriteBit quantum) this = map_sum id snd (writeBit this quantum)"
| "after_call IsRunning this = map_sum id snd (isRunning this)"
| "after_call GetDensity this = map_sum id snd (getDensity this)"
| "after_call ExecuteBounce this = map_sum id snd (executeBounce this)"
| "after_call ExpandEntropy this = map_sum id snd (expandEntropy this)"
| "after_call GetRadiation this = map_sum id snd (getRadiation this)"

fun after_calls :: "member_call list \<Rightarrow> Sandbox \<Rightarrow> Sandbox result" where
  "after_calls [] this = Inr this"
| "after_calls (m # ms) this =
     (case after_call m this of Inl e \<Rightarrow> Inl e | Inr this' \<Rightarrow> after_calls ms this')"

text \<open>A fresh object from \<^verbatim>\<open>initialize\<close>, then the calls of the list.\<close>

definition fresh_then :: "double \<Rightarrow> member_call list \<Rightarrow> Sandbox result" where
  "fresh_then volume_geometry ms =
     (case initialize volume_geometry of Inl e \<Rightarrow> Inl e | Inr this \<Rightarrow> after_calls ms this)"

section \<open>The operations as a relation between a call and its outcomes\<close>

text \<open>
  Whether a call has one outcome or several cannot be asked of a function, so the
  operations are given a second time, as the relation between a call and the outcomes
  its body can produce: one rule for each function of the source, read off its body. A
  body that took its result from anything but the object and the arguments (a clock, a
  random source, input, a variable that is not initialised, a global that changes) would
  get a rule whose outcome is not fixed by the call, or several rules; no body of the
  source does.
\<close>

datatype val =
    V_void
  | V_Sandbox Sandbox
  | V_Bit Bit
  | V_bool bool
  | V_double double
  | V_signal string

text \<open>The two static functions: there is no object, and the program has no global that changes.\<close>

datatype 'signal static_call = Initialize double | Decode 'signal

inductive static_returns :: "'signal static_call \<Rightarrow> val result \<Rightarrow> bool" where
  run_initialize: "static_returns (Initialize volume_geometry) (Inr (V_Sandbox Sandbox))"
| run_decode: "static_returns (Decode signal) (Inr V_void)"

text \<open>The member functions: the call, the object before, the result and the object after.\<close>

inductive member_returns :: "member_call \<Rightarrow> Sandbox \<Rightarrow> (val \<times> Sandbox) result \<Rightarrow> bool" where
  run_clearToZero: "member_returns ClearToZero this (Inr (V_void, this))"
| run_writeBit: "member_returns (WriteBit quantum) this (Inr (V_Bit (Bit 1), this))"
| run_isRunning: "member_returns IsRunning this (Inr (V_bool True, this))"
| run_getDensity: "member_returns GetDensity this (Inr (V_double (Num 0.0), this))"
| run_executeBounce: "member_returns ExecuteBounce this (Inr (V_void, this))"
| run_expandEntropy: "member_returns ExpandEntropy this (Inr (V_void, this))"
| run_getRadiation: "member_returns GetRadiation this (Inr (V_signal ''Hawking-Signal'', this))"

code_pred static_returns .

code_pred member_returns .

section \<open>Properties\<close>

subsection \<open>Helper facts\<close>

lemma after_call_keeps: "after_call m this = Inr this"
  by (cases m)
    (simp_all add: clearToZero_def writeBit_def isRunning_def getDensity_def
      executeBounce_def expandEntropy_def getRadiation_def)

lemma after_calls_keeps: "after_calls ms this = Inr this"
  by (induction ms) (simp_all add: after_call_keeps)

lemma fresh_then_Sandbox: "fresh_then x ms = Inr Sandbox"
  by (simp add: fresh_then_def initialize_def after_calls_keeps)

lemma guard_false: "\<not> double_ge (Num 0) PLANCK_LIMIT"
  by (simp add: PLANCK_LIMIT_def)

lemma loop_body_calls:
  "loop_body universe calls =
     Inr (universe, calls @ [Call_getDensity (Num 0), Call_expandEntropy,
       Call_getRadiation ''Hawking-Signal'', Call_decode ''Hawking-Signal''])"
  by (simp add: loop_body_def call_def ret_def getDensity_def guard_false
      expandEntropy_def getRadiation_def decode_def)

lemma breath_cycle_calls:
  "breath_cycle fuel universe calls =
     Inr (Looping, calls @ concat (replicate fuel
       [Call_isRunning True, Call_getDensity (Num 0), Call_expandEntropy,
        Call_getRadiation ''Hawking-Signal'', Call_decode ''Hawking-Signal'']))"
proof (induction fuel arbitrary: calls)
  case 0
  show ?case by (simp add: ret_def)
next
  case (Suc fuel)
  show ?case
    by (simp add: call_def seq_def isRunning_def loop_body_calls Suc.IH)
qed

lemma boot_universe_calls:
  "boot_universe c fuel [] =
     Inr (Looping, [Call_initialize c, Call_clearToZero, Call_writeBit (Num 1) (Bit 1)]
       @ concat (replicate fuel
       [Call_isRunning True, Call_getDensity (Num 0), Call_expandEntropy,
        Call_getRadiation ''Hawking-Signal'', Call_decode ''Hawking-Signal'']))"
  by (simp add: boot_universe_def call_def initialize_def clearToZero_def writeBit_def
      SIGMA_P_def breath_cycle_calls)

lemma count_list_concat_replicate:
  "count_list (concat (replicate n xs)) x = n * count_list xs x"
  by (induction n) simp_all

lemma set_concat_replicate: "x \<notin> set xs \<Longrightarrow> x \<notin> set (concat (replicate n xs))"
  by (induction n) simp_all

lemma length_concat_replicate: "length (concat (replicate n xs)) = n * length xs"
  by (induction n) simp_all

subsection \<open>writeBit\<close>

text \<open>
  Claim C6. \<^verbatim>\<open>writeBit(q)\<close> returns normally for every argument \<open>q\<close> (every real
  number, and the infinities and NaN as well) and on every object, and the value it
  returns is always \<^verbatim>\<open>Bit(1)\<close>: it depends neither on \<open>q\<close> nor on what was done
  to the object before.
\<close>

theorem writeBit_fixed_bit:
  "(\<forall>this q. \<exists>this'. writeBit this q = Inr (Bit 1, this'))
   \<and> (\<forall>x ms q. \<exists>this this'. fresh_then x ms = Inr this \<and> writeBit this q = Inr (Bit 1, this'))
   \<and> (\<forall>q. writeBit Sandbox (Num q) = Inr (Bit 1, Sandbox))"
  by (simp add: writeBit_def fresh_then_Sandbox)

subsection \<open>isRunning and the loop\<close>

text \<open>
  Claim C1. \<^verbatim>\<open>isRunning()\<close> returns true on every object: on a fresh one and after
  any sequence of calls of member functions. Consequently the loop of
  \<^verbatim>\<open>boot_universe\<close> is never left: whatever the constant passed to
  \<^verbatim>\<open>initialize\<close> and however many iterations are allowed, the driver has neither
  returned nor failed, it has run all of them (three calls before the loop and five
  in each iteration), and each evaluation of the guard gave true.
\<close>

theorem isRunning_true_loop_never_left:
  "(\<forall>this. isRunning this = Inr (True, this))
   \<and> (\<forall>x ms. \<exists>this. fresh_then x ms = Inr this \<and> isRunning this = Inr (True, this))
   \<and> (\<forall>c fuel. \<exists>calls. boot_universe c fuel [] = Inr (Looping, calls)
         \<and> length calls = 3 + 5 * fuel
         \<and> count_list calls (Call_isRunning True) = fuel
         \<and> Call_isRunning False \<notin> set calls)"
proof (intro conjI allI)
  fix this
  show "isRunning this = Inr (True, this)"
    by (simp add: isRunning_def)
next
  fix x ms
  show "\<exists>this. fresh_then x ms = Inr this \<and> isRunning this = Inr (True, this)"
    by (simp add: fresh_then_Sandbox isRunning_def)
next
  fix c fuel
  show "\<exists>calls. boot_universe c fuel [] = Inr (Looping, calls)
         \<and> length calls = 3 + 5 * fuel
         \<and> count_list calls (Call_isRunning True) = fuel
         \<and> Call_isRunning False \<notin> set calls"
    by (simp add: boot_universe_calls length_concat_replicate count_list_concat_replicate
        set_concat_replicate)
qed

text \<open>
  Claim C2. The density that \<^verbatim>\<open>getDensity()\<close> returns never satisfies the guard
  \<^verbatim>\<open>getDensity() >= PLANCK_LIMIT\<close>. So one run of the loop body, from any object,
  calls \<^verbatim>\<open>expandEntropy()\<close> and not \<^verbatim>\<open>executeBounce()\<close>, and the calls of the
  driver after any number of iterations are the three before the loop followed by the
  same five calls once for each iteration: \<^verbatim>\<open>expandEntropy()\<close> once in each
  iteration, \<^verbatim>\<open>executeBounce()\<close> never.
\<close>

theorem guard_false_only_expandEntropy:
  "(\<forall>this. \<exists>d this'. getDensity this = Inr (d, this') \<and> \<not> double_ge d PLANCK_LIMIT)
   \<and> (\<forall>this calls. \<exists>this' made. loop_body this calls = Inr (this', calls @ made)
         \<and> count_list made Call_expandEntropy = 1 \<and> Call_executeBounce \<notin> set made)
   \<and> (\<forall>c fuel. \<exists>calls. boot_universe c fuel [] = Inr (Looping, calls)
         \<and> calls = [Call_initialize c, Call_clearToZero, Call_writeBit (Num 1) (Bit 1)]
             @ concat (replicate fuel
                 [Call_isRunning True, Call_getDensity (Num 0), Call_expandEntropy,
                  Call_getRadiation ''Hawking-Signal'', Call_decode ''Hawking-Signal''])
         \<and> count_list calls Call_expandEntropy = fuel
         \<and> Call_executeBounce \<notin> set calls)"
proof (intro conjI allI)
  fix this
  show "\<exists>d this'. getDensity this = Inr (d, this') \<and> \<not> double_ge d PLANCK_LIMIT"
    by (simp add: getDensity_def guard_false)
next
  fix this calls
  show "\<exists>this' made. loop_body this calls = Inr (this', calls @ made)
         \<and> count_list made Call_expandEntropy = 1 \<and> Call_executeBounce \<notin> set made"
    by (simp add: loop_body_calls)
next
  fix c fuel
  show "\<exists>calls. boot_universe c fuel [] = Inr (Looping, calls)
         \<and> calls = [Call_initialize c, Call_clearToZero, Call_writeBit (Num 1) (Bit 1)]
             @ concat (replicate fuel
                 [Call_isRunning True, Call_getDensity (Num 0), Call_expandEntropy,
                  Call_getRadiation ''Hawking-Signal'', Call_decode ''Hawking-Signal''])
         \<and> count_list calls Call_expandEntropy = fuel
         \<and> Call_executeBounce \<notin> set calls"
    by (simp add: boot_universe_calls count_list_concat_replicate set_concat_replicate)
qed

subsection \<open>The observations\<close>

text \<open>
  Claim C3. \<^verbatim>\<open>getDensity()\<close> returns \<open>0.0\<close> on every object: on the object
  \<^verbatim>\<open>initialize\<close> has just returned, after any number of \<^verbatim>\<open>writeBit\<close> calls with
  any arguments, and after any other sequence of calls of member functions.
\<close>

theorem getDensity_always_zero:
  "(\<forall>this. getDensity this = Inr (Num 0, this))
   \<and> (\<forall>x. \<exists>this. initialize x = Inr this \<and> getDensity this = Inr (Num 0, this))
   \<and> (\<forall>x qs. \<exists>this. fresh_then x (map WriteBit qs) = Inr this
         \<and> getDensity this = Inr (Num 0, this))
   \<and> (\<forall>x ms. \<exists>this. fresh_then x ms = Inr this \<and> getDensity this = Inr (Num 0, this))"
  by (simp add: getDensity_def initialize_def fresh_then_Sandbox)

text \<open>
  Claim C4. \<^verbatim>\<open>getRadiation()\<close> returns the label \<open>Hawking-Signal\<close> on every
  object. \<^verbatim>\<open>decode\<close> returns normally on this label, as on any other signal of any
  type; it returns nothing and has no object or log to act on, and its parameter is
  passed by value. In the loop body the value handed to \<^verbatim>\<open>decode\<close> is the label
  exactly as \<^verbatim>\<open>getRadiation()\<close> returned it.
\<close>

theorem getRadiation_label_decoded:
  "(\<forall>this. getRadiation this = Inr (''Hawking-Signal'', this))
   \<and> decode ''Hawking-Signal'' = Inr ()
   \<and> (\<forall>signal. decode signal = Inr ())
   \<and> (\<forall>this calls. loop_body this calls =
         Inr (this, calls @ [Call_getDensity (Num 0), Call_expandEntropy,
           Call_getRadiation ''Hawking-Signal'', Call_decode ''Hawking-Signal'']))"
  by (simp add: getRadiation_def decode_def loop_body_calls)

subsection \<open>The end-to-end scenario\<close>

text \<open>
  Claim C5. \<^verbatim>\<open>boot_universe\<close> allowed exactly one iteration of its loop, for any
  value of \<^verbatim>\<open>CONST_8PI_G_C4\<close>: no call fails, and the calls made are, in this order,
  \<^verbatim>\<open>initialize(CONST_8PI_G_C4)\<close>, \<^verbatim>\<open>clearToZero()\<close>, \<^verbatim>\<open>writeBit(1.0)\<close> (returning
  \<^verbatim>\<open>Bit(1)\<close>), \<^verbatim>\<open>isRunning()\<close> returning true, \<^verbatim>\<open>getDensity()\<close> returning \<open>0.0\<close>,
  \<^verbatim>\<open>expandEntropy()\<close>, \<^verbatim>\<open>getRadiation()\<close> returning \<open>Hawking-Signal\<close>, and
  \<^verbatim>\<open>decode\<close> of that label. The loop has not been left.
\<close>

theorem boot_universe_one_iteration:
  "boot_universe c 1 [] =
     Inr (Looping,
       [Call_initialize c, Call_clearToZero, Call_writeBit (Num 1) (Bit 1),
        Call_isRunning True, Call_getDensity (Num 0), Call_expandEntropy,
        Call_getRadiation ''Hawking-Signal'', Call_decode ''Hawking-Signal''])"
  by (simp add: boot_universe_calls)

subsection \<open>initialize\<close>

text \<open>
  Claim C7. \<^verbatim>\<open>initialize(x)\<close> returns normally for every \<open>x\<close> (zero, negative and
  large numbers, and the infinities and NaN as well), and the object it returns does
  not depend on \<open>x\<close>: for any \<open>x\<close> and \<open>y\<close> the two objects are equal, and every
  observation and every sequence of calls gives the same on both.
\<close>

theorem initialize_ignores_argument:
  "(\<forall>x. \<exists>this. initialize x = Inr this)
   \<and> (\<forall>x y. initialize x = initialize y)
   \<and> (\<forall>x y. \<exists>s t. initialize x = Inr s \<and> initialize y = Inr t \<and> s = t
         \<and> isRunning s = isRunning t \<and> getDensity s = getDensity t
         \<and> getRadiation s = getRadiation t)
   \<and> (\<forall>x y ms. fresh_then x ms = fresh_then y ms)
   \<and> initialize (Num 0) = Inr Sandbox
   \<and> initialize (Num (- 1)) = Inr Sandbox
   \<and> initialize (Num (10 ^ 300)) = Inr Sandbox"
  by (simp add: initialize_def fresh_then_Sandbox)

subsection \<open>No operation fails\<close>

text \<open>
  Claim C8. Each of the nine operations returns normally, for every argument and on
  every object (so on every reachable one): none ends in an exception.
\<close>

theorem every_operation_returns:
  "(\<forall>x. \<exists>this. initialize x = Inr this)
   \<and> (\<forall>this. \<exists>r. clearToZero this = Inr r)
   \<and> (\<forall>this q. \<exists>r. writeBit this q = Inr r)
   \<and> (\<forall>this. \<exists>r. isRunning this = Inr r)
   \<and> (\<forall>this. \<exists>r. getDensity this = Inr r)
   \<and> (\<forall>this. \<exists>r. executeBounce this = Inr r)
   \<and> (\<forall>this. \<exists>r. expandEntropy this = Inr r)
   \<and> (\<forall>this. \<exists>r. getRadiation this = Inr r)
   \<and> (\<forall>signal. \<exists>r. decode signal = Inr r)
   \<and> (\<forall>x ms. \<exists>this. fresh_then x ms = Inr this)"
  by (auto simp add: initialize_def clearToZero_def writeBit_def isRunning_def getDensity_def
      executeBounce_def expandEntropy_def getRadiation_def decode_def fresh_then_Sandbox)

subsection \<open>No operation changes the object\<close>

text \<open>
  Claim C9. Every member function of \<^verbatim>\<open>Sandbox\<close> returns the object as it received
  it. So after any sequence of calls on a fresh object, \<^verbatim>\<open>getDensity()\<close>,
  \<^verbatim>\<open>isRunning()\<close> and \<^verbatim>\<open>getRadiation()\<close> return what they return on the fresh
  object: \<open>0.0\<close>, true and \<open>Hawking-Signal\<close>.
\<close>

theorem operations_keep_the_object:
  "(\<forall>this. clearToZero this = Inr ((), this))
   \<and> (\<forall>this q. \<exists>b. writeBit this q = Inr (b, this))
   \<and> (\<forall>this. \<exists>b. isRunning this = Inr (b, this))
   \<and> (\<forall>this. \<exists>d. getDensity this = Inr (d, this))
   \<and> (\<forall>this. executeBounce this = Inr ((), this))
   \<and> (\<forall>this. expandEntropy this = Inr ((), this))
   \<and> (\<forall>this. \<exists>l. getRadiation this = Inr (l, this))
   \<and> (\<forall>ms this. after_calls ms this = Inr this)
   \<and> (\<forall>x ms. \<exists>fresh this. initialize x = Inr fresh \<and> fresh_then x ms = Inr this
         \<and> getDensity this = getDensity fresh \<and> getDensity this = Inr (Num 0, this)
         \<and> isRunning this = isRunning fresh \<and> isRunning this = Inr (True, this)
         \<and> getRadiation this = getRadiation fresh
         \<and> getRadiation this = Inr (''Hawking-Signal'', this))"
  by (auto simp add: initialize_def clearToZero_def writeBit_def isRunning_def getDensity_def
      executeBounce_def expandEntropy_def getRadiation_def after_calls_keeps
      fresh_then_Sandbox)

subsection \<open>Determinism\<close>

text \<open>The relation and the functions describe the same operations.\<close>

lemma static_returns_agree:
  "static_returns (Initialize x) r \<longleftrightarrow> r = map_sum id V_Sandbox (initialize x)"
  "static_returns (Decode signal) r \<longleftrightarrow> r = map_sum id (\<lambda>_. V_void) (decode signal)"
  by (auto simp add: initialize_def decode_def static_returns.simps)

lemma member_returns_agree:
  "member_returns ClearToZero this r \<longleftrightarrow>
     r = map_sum id (apfst (\<lambda>_. V_void)) (clearToZero this)"
  "member_returns (WriteBit q) this r \<longleftrightarrow> r = map_sum id (apfst V_Bit) (writeBit this q)"
  "member_returns IsRunning this r \<longleftrightarrow> r = map_sum id (apfst V_bool) (isRunning this)"
  "member_returns GetDensity this r \<longleftrightarrow> r = map_sum id (apfst V_double) (getDensity this)"
  "member_returns ExecuteBounce this r \<longleftrightarrow>
     r = map_sum id (apfst (\<lambda>_. V_void)) (executeBounce this)"
  "member_returns ExpandEntropy this r \<longleftrightarrow>
     r = map_sum id (apfst (\<lambda>_. V_void)) (expandEntropy this)"
  "member_returns GetRadiation this r \<longleftrightarrow>
     r = map_sum id (apfst V_signal) (getRadiation this)"
  by (auto simp add: clearToZero_def writeBit_def isRunning_def getDensity_def
      executeBounce_def expandEntropy_def getRadiation_def member_returns.simps)

text \<open>
  Claim C10. Every operation is deterministic. Take two runs of a member function, on
  equal objects and with equal arguments: whatever outcomes the two runs have, they are
  the same result and the same object afterwards. Likewise for two runs of
  \<^verbatim>\<open>initialize\<close> or of \<^verbatim>\<open>decode\<close> with equal arguments. And a run does have an
  outcome, so each call has exactly one.
\<close>

theorem operations_deterministic:
  "(\<forall>m m' this this' r r'.
      m = m' \<and> this = this' \<and> member_returns m this r \<and> member_returns m' this' r'
        \<longrightarrow> r = r')
   \<and> (\<forall>c c' v v'.
      c = c' \<and> static_returns c v \<and> static_returns c' v' \<longrightarrow> v = v')
   \<and> (\<forall>m this. \<exists>r. member_returns m this r)
   \<and> (\<forall>c. \<exists>v. static_returns c v)"
proof (intro conjI allI impI)
  fix m m' :: member_call and this this' r r'
  assume "m = m' \<and> this = this' \<and> member_returns m this r \<and> member_returns m' this' r'"
  then have first: "member_returns m this r" and second: "member_returns m this r'"
    by blast+
  from first second show "r = r'"
    by (cases m) (auto simp add: member_returns.simps)
next
  fix c c' :: "'a static_call" and v v' :: "val result"
  assume "c = c' \<and> static_returns c v \<and> static_returns c' v'"
  then have first: "static_returns c v" and second: "static_returns c v'"
    by blast+
  from first second show "v = v'"
    by (cases c) (auto simp add: static_returns.simps)
next
  fix m this
  show "\<exists>r. member_returns m this r"
    by (cases m) (simp_all add: member_returns.simps)
next
  fix c :: "'b static_call"
  show "\<exists>v. static_returns c v"
    by (cases c) (simp_all add: static_returns.simps)
qed

text \<open>
  At \<^verbatim>\<open>getDensity()\<close> and \<^verbatim>\<open>initialize(2.0)\<close>: each has the outcome of its body,
  and so, being deterministic, no other one.
\<close>

theorem operations_deterministic_witness:
  "member_returns GetDensity Sandbox (Inr (V_double (Num 0), Sandbox))
   \<and> \<not> member_returns GetDensity Sandbox (Inr (V_double (Num 1), Sandbox))
   \<and> \<not> member_returns GetDensity Sandbox (Inl Exception)
   \<and> static_returns (Initialize (Num 2) :: string static_call) (Inr (V_Sandbox Sandbox))
   \<and> \<not> static_returns (Initialize (Num 2) :: string static_call) (Inl Exception)"
proof -
  have density: "member_returns GetDensity Sandbox (Inr (V_double (Num 0), Sandbox))"
    by (simp add: member_returns.simps)
  have fresh: "static_returns (Initialize (Num 2) :: string static_call) (Inr (V_Sandbox Sandbox))"
    by (rule run_initialize)
  have member_once:
    "member_returns GetDensity Sandbox r \<Longrightarrow> r = Inr (V_double (Num 0), Sandbox)" for r
    using operations_deterministic density by blast
  have static_once:
    "static_returns (Initialize (Num 2) :: string static_call) v
       \<Longrightarrow> v = Inr (V_Sandbox Sandbox)" for v
    using operations_deterministic fresh by blast
  have "\<not> member_returns GetDensity Sandbox (Inr (V_double (Num 1), Sandbox))"
    using member_once by fastforce
  moreover have "\<not> member_returns GetDensity Sandbox (Inl Exception)"
    using member_once by fastforce
  moreover have "\<not> static_returns (Initialize (Num 2) :: string static_call) (Inl Exception)"
    using static_once by fastforce
  ultimately show ?thesis
    using density fresh by simp
qed

end
